theory Spec2Isabelle
  imports Main
begin

section \<open>The Hextuples parser of rdflib (\<^verbatim>\<open>rdflib/plugins/parsers/hext.py\<close>)\<close>

text \<open>
  The parser reads newline-delimited JSON. Each line is decoded by \<^verbatim>\<open>_load_json_line\<close>,
  turned into terms and handed to the conjunctive graph by \<^verbatim>\<open>_parse_hextuple\<close>; the method
  \<^verbatim>\<open>parse\<close> runs the two over the lines of a source. Exceptions are values of the type
  \<open>error\<close>, the mutable store is passed along explicitly, and the loop over the lines is a
  recursive function.
\<close>

subsection \<open>Python values\<close>

text \<open>
  A Python \<^verbatim>\<open>str\<close> is a \<open>string\<close>, one \<open>char\<close> for each character; the characters that
  \<open>char\<close> does not have are outside the model, and the parser looks for none of them. What
  \<^verbatim>\<open>json.loads\<close> returns is a \<open>json\<close> value: \<^verbatim>\<open>None\<close>, a boolean, a number, a string, a
  list of such values or a dictionary with strings as keys. A number is kept as the
  numeral of the line: the parser never looks into it.
\<close>

datatype json =
    JNull
  | JBool bool
  | JNumber string
  | JString string
  | JArray "json list"
  | JObject "(string \<times> json) list"

text \<open>
  The exceptions. \<open>JSONDecodeError\<close> is raised by \<^verbatim>\<open>json.loads\<close>; \<open>TypeError\<close>, \<open>KeyError\<close>
  and \<open>IndexError\<close> by iterating and indexing; \<open>AttributeError\<close> by a method call on a
  value that is not a string; \<open>AssertionError\<close> by line 88. A \<open>ValueError\<close> comes with its
  message: \<open>CannotBeNone tup\<close> is the message of line 45, which holds the record it was
  given, and \<open>NotALanguageTag l\<close> is the message with which \<^verbatim>\<open>Literal\<close> of \<^verbatim>\<open>rdflib.term\<close>
  refuses the language tag \<open>l\<close>. \<open>TermError c\<close> is an exception of the class named \<open>c\<close>
  that a constructor of \<^verbatim>\<open>rdflib.term\<close> raises on an argument that is not a string.
\<close>

datatype message =
    CannotBeNone "json list"
  | NotALanguageTag string

datatype error =
    JSONDecodeError
  | TypeError
  | KeyError
  | IndexError
  | AttributeError
  | ValueError message
  | AssertionError
  | TermError string

text \<open>\<^verbatim>\<open>xs[i]\<close> for an index \<open>i \<ge> 0\<close>: out of range it raises \<^verbatim>\<open>IndexError\<close>.\<close>

definition getitem :: "'a list \<Rightarrow> nat \<Rightarrow> error + 'a" where
  "getitem xs i = (if i < length xs then Inr (xs ! i) else Inl IndexError)"

text \<open>\<^verbatim>\<open>s.startswith(p)\<close> for a string \<open>s\<close>.\<close>

definition startswith :: "string \<Rightarrow> string \<Rightarrow> bool" where
  "startswith s p = (take (length p) s = p)"

text \<open>
  \<^verbatim>\<open>s.replace(old, new)\<close> for a string \<open>s\<close>: every occurrence of \<open>old\<close> in \<open>s\<close>, found from
  left to right and without overlap, is replaced by \<open>new\<close>. For an empty \<open>old\<close> Python
  puts \<open>new\<close> before every character and at the end.
\<close>

function replace :: "string \<Rightarrow> string \<Rightarrow> string \<Rightarrow> string" where
  "replace [] old new = (if old = [] then new else [])"
| "replace (c # cs) old new =
     (if old = [] then new @ c # replace cs old new
      else if startswith (c # cs) old
        then new @ replace (drop (length old) (c # cs)) old new
      else c # replace cs old new)"
  by pat_completeness auto
termination
  by (relation "measure (\<lambda>(s, old, new). length s)") auto

subsection \<open>Terms, statements and the graph\<close>

text \<open>
  The classes of \<^verbatim>\<open>rdflib.term\<close> are outside this file. A term is the constructor call
  that built it: \<^verbatim>\<open>URIRef(x)\<close>, \<^verbatim>\<open>BNode(value=x)\<close> and \<^verbatim>\<open>Literal(x, lang=l, datatype=d)\<close>
  on strings, where a keyword that the call leaves out is \<open>None\<close>.
\<close>

datatype node =
    URIRef string
  | BNode string
  | Literal string "string option" "node option"

text \<open>
  What the constructors do when they are called is a parameter of the model, in two
  parts. On strings, only \<^verbatim>\<open>Literal(x, lang=l)\<close> can raise: \<open>rejects_langtag l\<close> says that
  \<^verbatim>\<open>rdflib.term\<close> refuses the language tag \<open>l\<close>, with a \<^verbatim>\<open>ValueError\<close>. A line can also hold
  numbers, booleans, lists and dictionaries, and the parser passes them on as they are:
  \<open>non_string_call\<close> is what \<^verbatim>\<open>rdflib.term\<close> makes of a call with an argument that is not
  a string, a term or the name of the class of the exception it raises. \<^verbatim>\<open>BNode\<close> is
  called on the result of \<^verbatim>\<open>replace\<close> only, which is a string.
\<close>

datatype call =
    URIRef_call json
  | Literal_datatype_call json node
  | Literal_lang_call json json

record rdflib_term =
  rejects_langtag :: "string \<Rightarrow> bool"
  non_string_call :: "call \<Rightarrow> string + node"

definition other_call :: "rdflib_term \<Rightarrow> call \<Rightarrow> error + node" where
  "other_call T c = (case non_string_call T c of Inl cls \<Rightarrow> Inl (TermError cls) | Inr n \<Rightarrow> Inr n)"

text \<open>\<^verbatim>\<open>URIRef(x)\<close>.\<close>

definition make_URIRef :: "rdflib_term \<Rightarrow> json \<Rightarrow> error + node" where
  "make_URIRef T x =
     (case x of
        JString s \<Rightarrow> Inr (URIRef s)
      | _ \<Rightarrow> other_call T (URIRef_call x))"

text \<open>\<^verbatim>\<open>Literal(x, datatype=d)\<close> for a term \<open>d\<close>.\<close>

definition make_Literal_datatype :: "rdflib_term \<Rightarrow> json \<Rightarrow> node \<Rightarrow> error + node" where
  "make_Literal_datatype T x d =
     (case x of
        JString s \<Rightarrow> Inr (Literal s None (Some d))
      | _ \<Rightarrow> other_call T (Literal_datatype_call x d))"

text \<open>\<^verbatim>\<open>Literal(x, lang=l)\<close>.\<close>

definition make_Literal_lang :: "rdflib_term \<Rightarrow> json \<Rightarrow> json \<Rightarrow> error + node" where
  "make_Literal_lang T x l =
     (case x of
        JString s \<Rightarrow>
          (case l of
             JString t \<Rightarrow>
               if rejects_langtag T t then Inl (ValueError (NotALanguageTag t))
               else Inr (Literal s (Some t) None)
           | _ \<Rightarrow> other_call T (Literal_lang_call x l))
      | _ \<Rightarrow> other_call T (Literal_lang_call x l))"

text \<open>
  The argument of \<^verbatim>\<open>cg.add\<close> is a tuple of three terms or of four, the fourth being the
  context; \<open>subject\<close> and \<open>object\<close> read its first and third term.
\<close>

datatype statement =
    Triple node node node
  | Quad node node node node

fun subject :: "statement \<Rightarrow> node" where
  "subject (Triple s p ob) = s"
| "subject (Quad s p ob c) = s"

fun object :: "statement \<Rightarrow> node" where
  "object (Triple s p ob) = ob"
| "object (Quad s p ob c) = ob"

text \<open>
  The store is an external collaborator. The parser reads its flag \<^verbatim>\<open>context_aware\<close>
  and reaches it only through \<^verbatim>\<open>ConjunctiveGraph.add\<close>; \<open>added\<close> holds the arguments of
  these calls, the oldest first. A graph is a store and an identifier. The store is one
  shared object in Python: the conjunctive graph built on line 92 holds the store of the
  caller's graph, and its \<^verbatim>\<open>default_context\<close>, set to the caller's graph on line 93, is
  kept as the identifier of that graph.
\<close>

record store =
  context_aware :: bool
  added :: "statement list"

record graph =
  store :: store
  graph_identifier :: node

record conjunctive_graph =
  cg_store :: store
  cg_identifier :: node
  default_context :: node

text \<open>\<^verbatim>\<open>cg.add(x)\<close>, as the store sees it.\<close>

definition cg_add :: "conjunctive_graph \<Rightarrow> statement \<Rightarrow> conjunctive_graph" where
  "cg_add cg x = cg\<lparr>cg_store := (cg_store cg)\<lparr>added := added (cg_store cg) @ [x]\<rparr>\<rparr>"

subsection \<open>\<^verbatim>\<open>_load_json_line\<close>\<close>

text \<open>
  \<^verbatim>\<open>
  ret1 = json.loads(line)
  ret2 = [x if x != "" else None for x in ret1]
  if ret1[2] == "":
      ret2[2] = ""
  return ret2
  \<close>
  \<^verbatim>\<open>json.loads\<close> belongs to the Python library and is the parameter \<open>json_loads\<close>, which
  returns \<open>None\<close> where the library raises \<^verbatim>\<open>JSONDecodeError\<close>. The comprehension iterates
  over \<open>ret1\<close>: over the elements of a list, the characters of a string and the keys of a
  dictionary; \<^verbatim>\<open>None\<close>, a boolean and a number are not iterable. Only the empty string is
  equal to \<^verbatim>\<open>""\<close>. Then \<^verbatim>\<open>ret1[2]\<close> is read: a dictionary has no key \<open>2\<close>, and a string or
  a list shorter than three raises \<^verbatim>\<open>IndexError\<close>. No character of a string is the empty
  string.
\<close>

definition empty_to_none :: "json \<Rightarrow> json" where
  "empty_to_none x = (if x \<noteq> JString [] then x else JNull)"

fun load_json_value :: "json \<Rightarrow> error + json list" where
  "load_json_value (JArray ret1) =
     (let ret2 = map empty_to_none ret1 in
      case getitem ret1 2 of
        Inl e \<Rightarrow> Inl e
      | Inr x \<Rightarrow> Inr (if x = JString [] then ret2[2 := JString []] else ret2))"
| "load_json_value (JString s) =
     (let ret2 = map (\<lambda>c. empty_to_none (JString [c])) s in
      case getitem s 2 of
        Inl e \<Rightarrow> Inl e
      | Inr c \<Rightarrow> Inr (if JString [c] = JString [] then ret2[2 := JString []] else ret2))"
| "load_json_value (JObject kvs) = Inl KeyError"
| "load_json_value JNull = Inl TypeError"
| "load_json_value (JBool b) = Inl TypeError"
| "load_json_value (JNumber n) = Inl TypeError"

definition load_json_line :: "(string \<Rightarrow> json option) \<Rightarrow> string \<Rightarrow> error + json list" where
  "load_json_line json_loads line =
     (case json_loads line of
        None \<Rightarrow> Inl JSONDecodeError
      | Some ret1 \<Rightarrow> load_json_value ret1)"

subsection \<open>\<^verbatim>\<open>_parse_hextuple\<close>\<close>

text \<open>
  The check of line 44 reads \<^verbatim>\<open>tup[0]\<close>, \<^verbatim>\<open>tup[1]\<close>, \<^verbatim>\<open>tup[2]\<close>, \<^verbatim>\<open>tup[3]\<close> from left to
  right and stops at the first that is \<^verbatim>\<open>None\<close>, where \<^verbatim>\<open>ValueError\<close> is raised with the
  record in its message; a position that the record does not have raises \<^verbatim>\<open>IndexError\<close>
  when it is read. \<open>required tup i\<close> is one such read, and gives the value of a position
  that passed the check.
\<close>

definition required :: "json list \<Rightarrow> nat \<Rightarrow> error + json" where
  "required tup i =
     (case getitem tup i of
        Inl e \<Rightarrow> Inl e
      | Inr x \<Rightarrow> if x = JNull then Inl (ValueError (CannotBeNone tup)) else Inr x)"

text \<open>
  Lines 50 to 54, the subject:
  \<^verbatim>\<open>
  if tup[0].startswith("_"):
      s = BNode(value=tup[0].replace("_:", ""))
  else:
      s = URIRef(tup[0])
  \<close>
  Only a string has the method \<^verbatim>\<open>startswith\<close>: on any other value line 51 raises
  \<^verbatim>\<open>AttributeError\<close>.
\<close>

definition subject_term :: "json \<Rightarrow> error + node" where
  "subject_term t0 =
     (case t0 of
        JString s \<Rightarrow>
          Inr (if startswith s ''_'' then BNode (replace s ''_:'' []) else URIRef s)
      | _ \<Rightarrow> Inl AttributeError)"

text \<open>
  Lines 60 to 69, the object:
  \<^verbatim>\<open>
  if tup[3] == "globalId":
      o = URIRef(tup[2])
  elif tup[3] == "localId":
      o = BNode(value=tup[2].replace("_:", ""))
  else:  # literal
      if tup[4] is None:
          o = Literal(tup[2], datatype=URIRef(tup[3]))
      else:
          o = Literal(tup[2], lang=tup[4])
  \<close>
  \<^verbatim>\<open>tup[4]\<close> is read in the last branch only. Only a string has the method \<^verbatim>\<open>replace\<close>.
\<close>

definition object_term :: "rdflib_term \<Rightarrow> json list \<Rightarrow> json \<Rightarrow> json \<Rightarrow> error + node" where
  "object_term T tup t2 t3 =
     (if t3 = JString ''globalId'' then make_URIRef T t2
      else if t3 = JString ''localId'' then
        (case t2 of
           JString v \<Rightarrow> Inr (BNode (replace v ''_:'' []))
         | _ \<Rightarrow> Inl AttributeError)
      else
        (case getitem tup 4 of
           Inl e \<Rightarrow> Inl e
         | Inr t4 \<Rightarrow>
             if t4 = JNull then
               (case make_URIRef T t3 of
                  Inl e \<Rightarrow> Inl e
                | Inr d \<Rightarrow> make_Literal_datatype T t2 d)
             else make_Literal_lang T t2 t4))"

text \<open>
  The whole method. The terms are built before \<^verbatim>\<open>tup[5]\<close> is read, and \<^verbatim>\<open>cg.add\<close> is the
  last thing the method does: when it raises, the graph is as it was.
\<close>

definition parse_hextuple :: "rdflib_term \<Rightarrow> conjunctive_graph \<Rightarrow> json list \<Rightarrow> error + conjunctive_graph" where
  "parse_hextuple T cg tup =
     (case required tup 0 of Inl e \<Rightarrow> Inl e | Inr t0 \<Rightarrow>
      case required tup 1 of Inl e \<Rightarrow> Inl e | Inr t1 \<Rightarrow>
      case required tup 2 of Inl e \<Rightarrow> Inl e | Inr t2 \<Rightarrow>
      case required tup 3 of Inl e \<Rightarrow> Inl e | Inr t3 \<Rightarrow>
      case subject_term t0 of Inl e \<Rightarrow> Inl e | Inr s \<Rightarrow>
      case make_URIRef T t1 of Inl e \<Rightarrow> Inl e | Inr p \<Rightarrow>
      case object_term T tup t2 t3 of Inl e \<Rightarrow> Inl e | Inr ob \<Rightarrow>
      case getitem tup 5 of
        Inl e \<Rightarrow> Inl e
      | Inr t5 \<Rightarrow>
          if t5 \<noteq> JNull then
            (case make_URIRef T t5 of
               Inl e \<Rightarrow> Inl e
             | Inr c \<Rightarrow> Inr (cg_add cg (Quad s p ob c)))
          else Inr (cg_add cg (Triple s p ob)))"

subsection \<open>\<^verbatim>\<open>parse\<close>\<close>

text \<open>
  Lines 81 to 86: an \<^verbatim>\<open>encoding\<close> keyword other than \<^verbatim>\<open>None\<close> and \<^verbatim>\<open>"utf-8"\<close> gives a
  warning, and nothing else depends on it.
\<close>

definition encoding_warning :: "string option \<Rightarrow> bool" where
  "encoding_warning encoding = (encoding \<notin> {None, Some ''utf-8''})"

text \<open>
  The source is probed for attributes. With an attribute \<^verbatim>\<open>file\<close>, the lines are those of
  the file it names. Without it and with a \<^verbatim>\<open>__bytefile\<close> that has an attribute
  \<^verbatim>\<open>wrapped\<close>, the lines are \<^verbatim>\<open>wrapped.strip().splitlines()\<close>. Any other source gives no
  line at all. Reading a file and splitting a text belong to the Python library: the
  lines come with the source.
\<close>

datatype input_source =
    WithFile "string list"
  | WithBytefile "string list option"
  | OtherSource

fun source_lines :: "input_source \<Rightarrow> string list" where
  "source_lines (WithFile ls) = ls"
| "source_lines (WithBytefile (Some ls)) = ls"
| "source_lines (WithBytefile None) = []"
| "source_lines OtherSource = []"

text \<open>
  One pass of the loop body, \<^verbatim>\<open>self._parse_hextuple(cg, self._load_json_line(l))\<close>.
\<close>

definition parse_line :: "(string \<Rightarrow> json option) \<Rightarrow> rdflib_term \<Rightarrow> conjunctive_graph \<Rightarrow> string \<Rightarrow> error + conjunctive_graph" where
  "parse_line json_loads T cg l =
     (case load_json_line json_loads l of
        Inl e \<Rightarrow> Inl e
      | Inr tup \<Rightarrow> parse_hextuple T cg tup)"

text \<open>
  The \<^verbatim>\<open>for\<close> loop. An exception leaves the loop and the method; the result is the graph
  as the loop left it, and the exception if one was raised.
\<close>

fun parse_lines :: "(string \<Rightarrow> json option) \<Rightarrow> rdflib_term \<Rightarrow> conjunctive_graph \<Rightarrow> string list \<Rightarrow> conjunctive_graph \<times> error option" where
  "parse_lines json_loads T cg [] = (cg, None)"
| "parse_lines json_loads T cg (l # ls) =
     (case parse_line json_loads T cg l of
        Inl e \<Rightarrow> (cg, Some e)
      | Inr cg' \<Rightarrow> parse_lines json_loads T cg' ls)"

text \<open>
  Lines 92 and 93:
  \<^verbatim>\<open>
  cg = ConjunctiveGraph(store=graph.store, identifier=graph.identifier)
  cg.default_context = graph
  \<close>
\<close>

definition conjunctive_graph_of :: "graph \<Rightarrow> conjunctive_graph" where
  "conjunctive_graph_of g =
     \<lparr>cg_store = store g, cg_identifier = graph_identifier g,
      default_context = graph_identifier g\<rparr>"

text \<open>
  Lines 88 to 110. The check of line 88 is an \<^verbatim>\<open>assert\<close> statement, which Python executes
  only when \<^verbatim>\<open>__debug__\<close> is true: under \<^verbatim>\<open>python -O\<close> it is compiled away, and so is the
  same \<^verbatim>\<open>assert\<close> in the constructor of \<^verbatim>\<open>ConjunctiveGraph\<close>. \<open>debug\<close> is \<^verbatim>\<open>__debug__\<close>. The
  result is the store of the caller's graph when the method ends, and the exception if
  one was raised.
\<close>

definition parse :: "bool \<Rightarrow> (string \<Rightarrow> json option) \<Rightarrow> rdflib_term \<Rightarrow> input_source \<Rightarrow> graph \<Rightarrow> store \<times> error option" where
  "parse debug json_loads T source g =
     (if debug \<and> \<not> context_aware (store g) then (store g, Some AssertionError)
      else
        let cg = conjunctive_graph_of g;
            (cg', raised) = parse_lines json_loads T cg (source_lines source)
        in (cg_store cg', raised))"

subsection \<open>Occurrences and examples\<close>

text \<open>\<^verbatim>\<open>p in s\<close>: the string \<open>p\<close> occurs in \<open>s\<close>.\<close>

fun contains :: "string \<Rightarrow> string \<Rightarrow> bool" where
  "contains [] p = (p = [])"
| "contains (c # cs) p = (startswith (c # cs) p \<or> contains cs p)"

text \<open>
  A graph on an empty context-aware store, the conjunctive graph that \<^verbatim>\<open>parse\<close> builds
  on it, and a graph whose store is not context-aware.
\<close>

definition sample_graph :: graph where
  "sample_graph =
     \<lparr>store = \<lparr>context_aware = True, added = []\<rparr>,
      graph_identifier = URIRef ''http://g/0''\<rparr>"

definition sample_cg :: conjunctive_graph where
  "sample_cg = conjunctive_graph_of sample_graph"

definition plain_graph :: graph where
  "plain_graph =
     \<lparr>store = \<lparr>context_aware = False, added = []\<rparr>,
      graph_identifier = URIRef ''http://g/0''\<rparr>"

text \<open>
  \<^verbatim>\<open>rdflib.term\<close> on the examples: of their language tags it accepts \<open>en\<close> and refuses
  \<open>not a lang\<close>, which has spaces. No example reaches a constructor with an argument that
  is not a string; \<open>example_term\<close> lets such a call raise \<^verbatim>\<open>TypeError\<close>.
\<close>

definition example_term :: rdflib_term where
  "example_term =
     \<lparr>rejects_langtag = (\<lambda>l. l = ''not a lang''),
      non_string_call = (\<lambda>c. Inl ''TypeError'')\<rparr>"

text \<open>
  Lines of a Hextuples file, and what \<^verbatim>\<open>json.loads\<close> returns on them; \<open>example_loads\<close> is
  the library function on these lines, and on \<open>line_broken\<close> it raises.
\<close>

definition line_typed :: string where
  "line_typed = ''[\"http://a\", \"http://b\", \"v\", \"http://www.w3.org/2001/XMLSchema#string\", \"\", \"\"]''"

definition line_bnode :: string where
  "line_bnode = ''[\"_:b1\", \"http://b\", \"_:b2\", \"localId\", \"\", \"http://g/1\"]''"

definition line_empty :: string where
  "line_empty = ''[\"\", \"p\", \"\", \"d\", \"\", \"\"]''"

definition line_global :: string where
  "line_global = ''[\"http://a\", \"http://b\", \"http://c\", \"globalId\", \"\", \"\"]''"

definition line_seven :: string where
  "line_seven = ''[\"http://a\", \"http://b\", \"http://c\", \"globalId\", \"\", \"\", \"more\"]''"

definition line_four :: string where
  "line_four = ''[\"http://a\", \"http://b\", \"http://c\", \"globalId\"]''"

definition line_refused :: string where
  "line_refused = ''[\"http://a\", \"http://b\", \"hi\", \"http://d\", \"not a lang\", \"http://g/1\"]''"

definition line_numbers :: string where
  "line_numbers = ''[1, 2, 3, 4]''"

definition line_two :: string where
  "line_two = ''[\"http://a\", \"http://b\"]''"

definition line_broken :: string where
  "line_broken = ''[\"http://a\", \"http://b\"''"

definition example_loads :: "string \<Rightarrow> json option" where
  "example_loads = map_of
     [(line_typed, JArray [JString ''http://a'', JString ''http://b'', JString ''v'',
         JString ''http://www.w3.org/2001/XMLSchema#string'', JString [], JString []]),
      (line_bnode, JArray [JString ''_:b1'', JString ''http://b'', JString ''_:b2'',
         JString ''localId'', JString [], JString ''http://g/1'']),
      (line_empty, JArray [JString [], JString ''p'', JString [], JString ''d'', JString [],
         JString []]),
      (line_global, JArray [JString ''http://a'', JString ''http://b'', JString ''http://c'',
         JString ''globalId'', JString [], JString []]),
      (line_seven, JArray [JString ''http://a'', JString ''http://b'', JString ''http://c'',
         JString ''globalId'', JString [], JString [], JString ''more'']),
      (line_four, JArray [JString ''http://a'', JString ''http://b'', JString ''http://c'',
         JString ''globalId'']),
      (line_refused, JArray [JString ''http://a'', JString ''http://b'', JString ''hi'',
         JString ''http://d'', JString ''not a lang'', JString ''http://g/1'']),
      (line_numbers, JArray [JNumber ''1'', JNumber ''2'', JNumber ''3'', JNumber ''4'']),
      (line_two, JArray [JString ''http://a'', JString ''http://b''])]"

lemmas example_defs =
  sample_graph_def sample_cg_def plain_graph_def conjunctive_graph_of_def example_loads_def
  example_term_def
  line_typed_def line_bnode_def line_empty_def line_global_def line_seven_def line_four_def
  line_refused_def line_numbers_def line_two_def line_broken_def

section \<open>Properties\<close>

subsection \<open>Auxiliary facts\<close>

lemma replace_absent: "old \<noteq> [] \<Longrightarrow> \<not> contains s old \<Longrightarrow> replace s old new = s"
  by (induction s) auto

lemma replace_bnode_prefix: "replace (''_:'' @ r) ''_:'' [] = replace r ''_:'' []"
  by (simp add: startswith_def)

lemma load_json_array:
  "load_json_value (JArray ret1) = Inr ret2 \<longleftrightarrow>
     2 < length ret1 \<and> ret2 = (map empty_to_none ret1)[2 := ret1 ! 2]"
proof (cases "2 < length ret1")
  case True
  then have "(map empty_to_none ret1)[2 := ret1 ! 2] = map empty_to_none ret1"
    if "ret1 ! 2 \<noteq> JString []"
    using that by (simp add: list_update_same_conv empty_to_none_def)
  then show ?thesis
    using True by (auto simp: getitem_def Let_def)
next
  case False
  then show ?thesis by (simp add: getitem_def)
qed

lemma load_json_array_value:
  "2 < length ret1 \<Longrightarrow>
     load_json_value (JArray ret1) = Inr ((map empty_to_none ret1)[2 := ret1 ! 2])"
  using load_json_array [of ret1 "(map empty_to_none ret1)[2 := ret1 ! 2]"] by blast

lemma six_elements:
  "6 \<le> length tup \<Longrightarrow> \<exists>a b c d e f rest. tup = a # b # c # d # e # f # rest"
  by (auto simp: Suc_le_length_iff eval_nat_numeral)

lemma parse_hextuple_length: "parse_hextuple T cg tup = Inr cg' \<Longrightarrow> 6 \<le> length tup"
  by (auto simp: parse_hextuple_def getitem_def split: sum.splits if_splits)

lemma parse_hextuple_six:
  "parse_hextuple T cg (t0 # t1 # t2 # t3 # t4 # t5 # rest) =
     (if t0 = JNull \<or> t1 = JNull \<or> t2 = JNull \<or> t3 = JNull
      then Inl (ValueError (CannotBeNone (t0 # t1 # t2 # t3 # t4 # t5 # rest)))
      else
        case subject_term t0 of Inl e \<Rightarrow> Inl e | Inr s \<Rightarrow>
        case make_URIRef T t1 of Inl e \<Rightarrow> Inl e | Inr p \<Rightarrow>
        case object_term T (t0 # t1 # t2 # t3 # t4 # t5 # rest) t2 t3 of
          Inl e \<Rightarrow> Inl e
        | Inr ob \<Rightarrow>
            if t5 \<noteq> JNull then
              (case make_URIRef T t5 of
                 Inl e \<Rightarrow> Inl e
               | Inr c \<Rightarrow> Inr (cg_add cg (Quad s p ob c)))
            else Inr (cg_add cg (Triple s p ob)))"
  by (simp add: parse_hextuple_def required_def getitem_def cong: sum.case_cong)

lemma parse_hextuple_Inr:
  "parse_hextuple T cg tup = Inr cg' \<longleftrightarrow>
     (\<exists>t0 t1 t2 t3 t4 t5 rest s p ob.
        tup = t0 # t1 # t2 # t3 # t4 # t5 # rest \<and>
        t0 \<noteq> JNull \<and> t1 \<noteq> JNull \<and> t2 \<noteq> JNull \<and> t3 \<noteq> JNull \<and>
        subject_term t0 = Inr s \<and> make_URIRef T t1 = Inr p \<and>
        object_term T tup t2 t3 = Inr ob \<and>
        (if t5 \<noteq> JNull
         then \<exists>c. make_URIRef T t5 = Inr c \<and> cg' = cg_add cg (Quad s p ob c)
         else cg' = cg_add cg (Triple s p ob)))"
  (is "?l \<longleftrightarrow> ?r")
proof
  assume a: ?l
  then obtain a b c d e f rest where t: "tup = a # b # c # d # e # f # rest"
    using parse_hextuple_length six_elements by blast
  from a show ?r
    unfolding t parse_hextuple_six
    by (auto split: sum.splits if_splits)
next
  assume ?r
  then obtain t0 t1 t2 t3 t4 t5 rest where t: "tup = t0 # t1 # t2 # t3 # t4 # t5 # rest"
    by blast
  from \<open>?r\<close> show ?l
    unfolding t parse_hextuple_six
    by (auto split: sum.splits if_splits)
qed

lemma parse_hextuple_example:
  "parse_hextuple T cg
     (JString t0 # JString t1 # JString t2 # JString t3 # t4 # t5 # rest) =
   (case object_term T (JString t0 # JString t1 # JString t2 # JString t3 # t4 # t5 # rest)
           (JString t2) (JString t3) of
      Inl e \<Rightarrow> Inl e
    | Inr ob \<Rightarrow>
        if t5 \<noteq> JNull then
          (case make_URIRef T t5 of
             Inl e \<Rightarrow> Inl e
           | Inr c \<Rightarrow>
               Inr (cg_add cg (Quad
                 (if startswith t0 ''_'' then BNode (replace t0 ''_:'' []) else URIRef t0)
                 (URIRef t1) ob c)))
        else
          Inr (cg_add cg (Triple
            (if startswith t0 ''_'' then BNode (replace t0 ''_:'' []) else URIRef t0)
            (URIRef t1) ob)))"
  by (simp add: parse_hextuple_six subject_term_def make_URIRef_def)

lemmas eval_defs =
  parse_hextuple_example object_term_def getitem_def make_URIRef_def make_Literal_datatype_def
  make_Literal_lang_def startswith_def

lemma last_added_cg_add [simp]: "last (added (cg_store (cg_add cg x))) = x"
  by (simp add: cg_add_def)

lemma added_cg_add [simp]: "added (cg_store (cg_add cg x)) = added (cg_store cg) @ [x]"
  by (simp add: cg_add_def)

lemma cg_add_frame [simp]:
  "default_context (cg_add cg x) = default_context cg"
  "cg_identifier (cg_add cg x) = cg_identifier cg"
  "context_aware (cg_store (cg_add cg x)) = context_aware (cg_store cg)"
  by (simp_all add: cg_add_def)

lemma ex_less_4: "(\<exists>i<4. P i) \<longleftrightarrow> P (0::nat) \<or> P 1 \<or> P 2 \<or> P 3"
proof -
  have "{..<4::nat} = {0, 1, 2, 3}" by auto
  then have "(\<exists>i\<in>{..<4}. P i) \<longleftrightarrow> P (0::nat) \<or> P 1 \<or> P 2 \<or> P 3" by simp
  then show ?thesis by (simp add: Bex_def)
qed

lemma other_call_error: "other_call T c = Inl e \<Longrightarrow> \<exists>cls. e = TermError cls"
  by (auto simp: other_call_def split: sum.splits)

lemma make_URIRef_error: "make_URIRef T x = Inl e \<Longrightarrow> \<exists>cls. e = TermError cls"
  by (cases x) (auto simp: make_URIRef_def dest: other_call_error)

lemma make_Literal_datatype_error:
  "make_Literal_datatype T x d = Inl e \<Longrightarrow> \<exists>cls. e = TermError cls"
  by (cases x) (auto simp: make_Literal_datatype_def dest: other_call_error)

lemma make_Literal_lang_error:
  "make_Literal_lang T x l = Inl e \<Longrightarrow>
     (\<exists>cls. e = TermError cls) \<or> (\<exists>t. e = ValueError (NotALanguageTag t))"
  by (cases x; cases l) (auto simp: make_Literal_lang_def dest: other_call_error split: if_splits)

lemma subject_term_error: "subject_term t0 = Inl e \<Longrightarrow> e = AttributeError"
  by (cases t0) (auto simp: subject_term_def)

lemma object_term_error:
  "object_term T tup t2 t3 = Inl e \<Longrightarrow>
     e = AttributeError \<or> e = IndexError \<or> (\<exists>cls. e = TermError cls) \<or>
     (\<exists>t. e = ValueError (NotALanguageTag t))"
  unfolding object_term_def
  by (cases t2)
    (auto simp: getitem_def split: if_splits sum.splits
      dest: make_URIRef_error make_Literal_datatype_error make_Literal_lang_error)

lemma parse_hextuple_validation:
  "parse_hextuple T cg tup = Inl (ValueError (CannotBeNone r)) \<longleftrightarrow>
     r = tup \<and> (\<exists>i<4. getitem tup i = Inr JNull)"
  unfolding ex_less_4 parse_hextuple_def required_def
  by (auto simp: getitem_def split: sum.splits if_splits
      dest: make_URIRef_error subject_term_error object_term_error)

lemma load_json_array_take6:
  assumes "6 \<le> length ret1" and "load_json_value (JArray ret1) = Inr tup"
  shows "load_json_value (JArray (take 6 ret1)) = Inr (take 6 tup)" and "6 \<le> length tup"
proof -
  from assms(1) have l: "2 < length ret1" "2 < length (take 6 ret1)" by simp_all
  from assms(2) have t: "tup = (map empty_to_none ret1)[2 := ret1 ! 2]"
    using load_json_array by blast
  show "load_json_value (JArray (take 6 ret1)) = Inr (take 6 tup)"
    unfolding load_json_array_value [OF l(2)] t
    by (simp add: take_map take_update_swap)
  show "6 \<le> length tup"
    using assms(1) t by simp
qed

lemma parse_hextuple_take6:
  assumes "6 \<le> length tup"
  shows "parse_hextuple T cg tup = Inr cg' \<longleftrightarrow> parse_hextuple T cg (take 6 tup) = Inr cg'"
proof -
  from assms obtain a b c d e f rest where t: "tup = a # b # c # d # e # f # rest"
    using six_elements by blast
  have ob: "object_term T (a # b # c # d # e # f # rest) x y =
      object_term T (a # b # c # d # e # f # []) x y" for x y
    by (simp add: object_term_def getitem_def)
  show ?thesis
    unfolding t by (simp add: parse_hextuple_six ob cong: sum.case_cong)
qed

lemma parse_line_take6:
  assumes "6 \<le> length ret1"
  shows "(case load_json_value (JArray ret1) of Inl e \<Rightarrow> Inl e | Inr tup \<Rightarrow> parse_hextuple T cg tup) = Inr cg'
    \<longleftrightarrow> (case load_json_value (JArray (take 6 ret1)) of Inl e \<Rightarrow> Inl e | Inr tup \<Rightarrow> parse_hextuple T cg tup) = Inr cg'"
proof -
  from assms have "2 < length ret1" by simp
  then obtain tup where v: "load_json_value (JArray ret1) = Inr tup"
    using load_json_array_value by blast
  from load_json_array_take6 [OF assms v] parse_hextuple_take6 [of tup T cg cg'] show ?thesis
    by (simp add: v del: load_json_value.simps)
qed

lemma parse_line_length:
  assumes "json_loads line = Some (JArray ret1)" and "parse_line json_loads T cg line = Inr cg'"
  shows "6 \<le> length ret1"
proof -
  from assms obtain tup where t: "load_json_value (JArray ret1) = Inr tup"
    and p: "parse_hextuple T cg tup = Inr cg'"
    by (auto simp: parse_line_def load_json_line_def split: sum.splits simp del: load_json_value.simps)
  from t have "length tup = length ret1"
    using load_json_array by simp
  with parse_hextuple_length [OF p] show ?thesis by simp
qed

lemma parse_hextuple_plain_error:
  assumes "\<forall>x\<in>set tup. x = JNull \<or> (\<exists>s. x = JString s)"
    and "parse_hextuple T cg tup = Inl e"
  shows "e = IndexError \<or> (\<exists>m. e = ValueError m)"
proof -
  have g: "x = JNull \<or> (\<exists>s. x = JString s)" if "getitem tup i = Inr x" for i x
    using that assms(1) by (auto simp: getitem_def split: if_splits)
  have ge: "e' = IndexError" if "getitem tup i = Inl e'" for i e'
    using that by (auto simp: getitem_def split: if_splits)
  have r: "\<exists>s. x = JString s" if "required tup i = Inr x" for i x
    using that g [of i] by (auto simp: required_def split: sum.splits if_splits)
  have re: "e' = IndexError \<or> (\<exists>m. e' = ValueError m)" if "required tup i = Inl e'" for i e'
    using that ge [of i] by (auto simp: required_def split: sum.splits if_splits)
  have ob: "e' = IndexError \<or> (\<exists>m. e' = ValueError m)"
    if "object_term T tup (JString a) (JString b) = Inl e'" for a b e'
    using that g [of 4] ge [of 4]
    by (auto simp: object_term_def make_URIRef_def make_Literal_datatype_def
        make_Literal_lang_def split: sum.splits if_splits)
  from assms(2) show ?thesis
    unfolding parse_hextuple_def
    by (auto simp: subject_term_def make_URIRef_def split: sum.splits if_splits
        dest!: r re dest: ob g ge)
qed

lemma parse_hextuple_frame:
  "parse_hextuple T cg tup = Inr cg' \<Longrightarrow>
     default_context cg' = default_context cg \<and>
     context_aware (cg_store cg') = context_aware (cg_store cg) \<and>
     (\<exists>st. added (cg_store cg') = added (cg_store cg) @ [st])"
  by (auto simp: parse_hextuple_Inr split: if_splits)

lemma parse_line_frame:
  "parse_line jl T cg l = Inr cg' \<Longrightarrow>
     default_context cg' = default_context cg \<and>
     context_aware (cg_store cg') = context_aware (cg_store cg) \<and>
     (\<exists>st. added (cg_store cg') = added (cg_store cg) @ [st])"
  by (auto simp: parse_line_def split: sum.splits dest: parse_hextuple_frame)

lemma parse_lines_frame:
  "parse_lines jl T cg ls = (cg', r) \<Longrightarrow>
     default_context cg' = default_context cg \<and>
     context_aware (cg_store cg') = context_aware (cg_store cg) \<and>
     (\<exists>sts. added (cg_store cg') = added (cg_store cg) @ sts \<and> length sts \<le> length ls \<and>
        (r = None \<longrightarrow> length sts = length ls))"
proof (induction ls arbitrary: cg)
  case Nil
  then show ?case by simp
next
  case (Cons l ls)
  show ?case
  proof (cases "parse_line jl T cg l")
    case (Inl e)
    with Cons.prems show ?thesis by auto
  next
    case (Inr cg1)
    with Cons.prems have "parse_lines jl T cg1 ls = (cg', r)" by simp
    from Cons.IH [OF this] parse_line_frame [OF Inr] show ?thesis
      by (auto simp: le_Suc_eq)
  qed
qed

lemma parse_lines_append:
  "parse_lines jl T cg (xs @ ys) =
     (case parse_lines jl T cg xs of
        (cg1, None) \<Rightarrow> parse_lines jl T cg1 ys
      | (cg1, Some e) \<Rightarrow> (cg1, Some e))"
  by (induction xs arbitrary: cg) (auto split: sum.splits)

lemma parse_lines_cong:
  "(\<forall>l\<in>set ls. jl' l = jl l) \<Longrightarrow> parse_lines jl' T cg ls = parse_lines jl T cg ls"
  by (induction ls arbitrary: cg) (auto simp: parse_line_def load_json_line_def split: sum.splits)

lemma parse_lines_stop:
  assumes "parse_lines jl T cg pre = (cg1, None)" and "parse_line jl T cg1 bad = Inl e"
  shows "parse_lines jl T cg (pre @ bad # post) = (cg1, Some e)"
  using assms by (simp add: parse_lines_append)

lemma cg_store_cg_add:
  "cg_store (cg_add (conjunctive_graph_of g) x) = (store g)\<lparr>added := added (store g) @ [x]\<rparr>"
  by (simp add: cg_add_def conjunctive_graph_of_def)

lemma parse_one_line:
  assumes "debug \<longrightarrow> context_aware (store g)"
    and "load_json_line json_loads l = Inr tup"
    and "parse_hextuple T (conjunctive_graph_of g) tup = Inr (cg_add (conjunctive_graph_of g) x)"
  shows "parse debug json_loads T (WithFile [l]) g =
    ((store g)\<lparr>added := added (store g) @ [x]\<rparr>, None)"
  using assms by (auto simp: parse_def parse_line_def cg_store_cg_add)

lemma example_typed_line:
  "parse_line example_loads example_term cg line_typed =
     Inr (cg_add cg
        (Triple (URIRef ''http://a'') (URIRef ''http://b'')
           (Literal ''v'' None (Some (URIRef ''http://www.w3.org/2001/XMLSchema#string'')))))"
proof -
  have l: "example_loads line_typed =
      Some (JArray [JString ''http://a'', JString ''http://b'', JString ''v'',
         JString ''http://www.w3.org/2001/XMLSchema#string'', JString [], JString []])"
    by (simp add: example_defs)
  show ?thesis
    by (simp add: parse_line_def load_json_line_def l empty_to_none_def eval_defs)
qed

lemma example_bnode_line:
  "parse_line example_loads example_term cg line_bnode =
     Inr (cg_add cg
        (Quad (BNode ''b1'') (URIRef ''http://b'') (BNode ''b2'') (URIRef ''http://g/1'')))"
proof -
  have l: "example_loads line_bnode =
      Some (JArray [JString ''_:b1'', JString ''http://b'', JString ''_:b2'',
         JString ''localId'', JString [], JString ''http://g/1''])"
    by (simp add: example_defs)
  show ?thesis
    by (simp add: parse_line_def load_json_line_def l empty_to_none_def eval_defs)
qed

lemma example_first_line:
  "parse_lines example_loads example_term (conjunctive_graph_of sample_graph) [line_typed] =
     (cg_add sample_cg
        (Triple (URIRef ''http://a'') (URIRef ''http://b'')
           (Literal ''v'' None (Some (URIRef ''http://www.w3.org/2001/XMLSchema#string'')))),
      None)"
  by (simp add: example_typed_line sample_cg_def)

lemma example_second_line:
  "parse_line example_loads example_term cg line_empty =
     Inl (ValueError (CannotBeNone
       [JNull, JString ''p'', JString [], JString ''d'', JNull, JNull]))"
proof -
  have l: "example_loads line_empty =
      Some (JArray [JString [], JString ''p'', JString [], JString ''d'', JString [],
        JString []])"
    by (simp add: example_defs)
  show ?thesis
    by (simp add: parse_line_def load_json_line_def l parse_hextuple_six getitem_def
        empty_to_none_def)
qed

subsection \<open>The decoder\<close>

text \<open>
  C1. A line that decodes to an array is normalized position by position: the result has
  the length of the array; position 2 (\<open>value\<close>) is exactly what was parsed, so an empty
  string stays an empty string and a null stays null; in every other position, and so in
  positions 0, 1, 3, 4 and 5, an empty string becomes null and anything else is kept. In
  particular the array \<open>["", "p", "", "d", "", ""]\<close> decodes to null, \<open>"p"\<close>, \<open>""\<close>, \<open>"d"\<close>,
  null, null.
\<close>

theorem load_json_line_normalization:
  assumes "json_loads line = Some (JArray ret1)"
    and "load_json_line json_loads line = Inr ret2"
  shows "length ret2 = length ret1 \<and> 2 < length ret1 \<and> ret2 ! 2 = ret1 ! 2 \<and>
    (\<forall>i < length ret1. i \<noteq> 2 \<longrightarrow>
       ret2 ! i = (if ret1 ! i = JString [] then JNull else ret1 ! i)) \<and>
    (ret1 = [JString [], JString ''p'', JString [], JString ''d'', JString [], JString []] \<longrightarrow>
       ret2 = [JNull, JString ''p'', JString [], JString ''d'', JNull, JNull])"
proof -
  from assms have r: "2 < length ret1" "ret2 = (map empty_to_none ret1)[2 := ret1 ! 2]"
    by (simp_all add: load_json_line_def load_json_array del: load_json_value.simps)
  have "ret2 ! i = (if ret1 ! i = JString [] then JNull else ret1 ! i)"
    if "i < length ret1" "i \<noteq> 2" for i
    using that r by (simp add: empty_to_none_def)
  moreover have "ret2 = [JNull, JString ''p'', JString [], JString ''d'', JNull, JNull]"
    if "ret1 = [JString [], JString ''p'', JString [], JString ''d'', JString [], JString []]"
    using r that by (simp add: empty_to_none_def)
  ultimately show ?thesis using r by simp
qed

theorem load_json_line_normalization_witness:
  "example_loads line_empty =
     Some (JArray [JString [], JString ''p'', JString [], JString ''d'', JString [],
       JString []]) \<and>
   load_json_line example_loads line_empty =
     Inr [JNull, JString ''p'', JString [], JString ''d'', JNull, JNull]"
proof -
  have l: "example_loads line_empty =
      Some (JArray [JString [], JString ''p'', JString [], JString ''d'', JString [],
        JString []])"
    by (simp add: example_defs)
  have d: "load_json_line example_loads line_empty =
      Inr [JNull, JString ''p'', JString [], JString ''d'', JNull, JNull]"
    by (simp add: load_json_line_def l getitem_def empty_to_none_def)
  show ?thesis
    using load_json_line_normalization [OF l d] l d by simp
qed

text \<open>
  C5, as amended. A line that \<^verbatim>\<open>json.loads\<close> rejects fails with its \<open>JSONDecodeError\<close>. An
  array of fewer than three elements fails in the decoder, with \<open>IndexError\<close>. An array of
  fewer than six elements, whatever its elements are, never gets through a pass of the
  loop: the decoder or \<^verbatim>\<open>_parse_hextuple\<close> raises; when its elements are strings and nulls
  the error is \<open>IndexError\<close> or \<open>ValueError\<close>, and an element that is neither can raise
  another one before, as \<open>[1, 2, 3, 4]\<close> does with the \<open>AttributeError\<close> of line 51. There
  is no check of the length anywhere: an array of more than six elements goes through
  exactly when its first six elements alone do, with the same graph as the result.
\<close>

theorem line_arity_errors:
  "(json_loads line = None \<longrightarrow> load_json_line json_loads line = Inl JSONDecodeError) \<and>
   (json_loads line = Some (JArray ret1) \<and> length ret1 < 3 \<longrightarrow>
      load_json_line json_loads line = Inl IndexError) \<and>
   (json_loads line = Some (JArray ret1) \<and> length ret1 < 6 \<longrightarrow>
      (\<exists>e. parse_line json_loads T cg line = Inl e)) \<and>
   (json_loads line = Some (JArray ret1) \<and> length ret1 < 6 \<and>
    (\<forall>x \<in> set ret1. x = JNull \<or> (\<exists>s. x = JString s)) \<longrightarrow>
      (\<exists>e. parse_line json_loads T cg line = Inl e \<and>
           (e = IndexError \<or> (\<exists>m. e = ValueError m)))) \<and>
   (json_loads line = Some (JArray ret1) \<and> 6 \<le> length ret1 \<and>
    json_loads line' = Some (JArray (take 6 ret1)) \<longrightarrow>
      (\<forall>cg'. parse_line json_loads T cg line = Inr cg' \<longleftrightarrow>
             parse_line json_loads T cg line' = Inr cg'))"
proof -
  have a: "load_json_line json_loads line = Inl JSONDecodeError" if "json_loads line = None"
    using that by (simp add: load_json_line_def)
  have b: "load_json_line json_loads line = Inl IndexError"
    if "json_loads line = Some (JArray ret1)" "length ret1 < 3"
    using that by (simp add: load_json_line_def getitem_def)
  have c: "\<exists>e. parse_line json_loads T cg line = Inl e"
    if "json_loads line = Some (JArray ret1)" "length ret1 < 6"
  proof (cases "parse_line json_loads T cg line")
    case (Inl e)
    then show ?thesis by blast
  next
    case (Inr cg')
    from parse_line_length [OF that(1) Inr] that(2) show ?thesis by simp
  qed
  have d: "\<exists>e. parse_line json_loads T cg line = Inl e \<and>
      (e = IndexError \<or> (\<exists>m. e = ValueError m))"
    if l: "json_loads line = Some (JArray ret1)" and s: "length ret1 < 6"
      and p: "\<forall>x \<in> set ret1. x = JNull \<or> (\<exists>s. x = JString s)"
  proof -
    from c [OF l s] obtain e where e: "parse_line json_loads T cg line = Inl e" by blast
    show ?thesis
    proof (cases "load_json_value (JArray ret1)")
      case (Inl e')
      then have "\<not> 2 < length ret1"
        using load_json_array_value [of ret1] by auto
      with l e show ?thesis
        by (simp add: parse_line_def load_json_line_def getitem_def)
    next
      case (Inr tup)
      then have t: "tup = (map empty_to_none ret1)[2 := ret1 ! 2]" and n: "2 < length ret1"
        using load_json_array by blast+
      have "\<forall>x \<in> set tup. x = JNull \<or> (\<exists>s. x = JString s)"
      proof
        fix x assume "x \<in> set tup"
        then have "x \<in> insert (ret1 ! 2) (set (map empty_to_none ret1))"
          unfolding t using set_update_subset_insert by fastforce
        with p n show "x = JNull \<or> (\<exists>s. x = JString s)"
          by (auto simp: empty_to_none_def)
      qed
      moreover from l e Inr have "parse_hextuple T cg tup = Inl e"
        by (simp add: parse_line_def load_json_line_def del: load_json_value.simps)
      ultimately show ?thesis
        using e parse_hextuple_plain_error by blast
    qed
  qed
  have f: "parse_line json_loads T cg line = Inr cg' \<longleftrightarrow>
      parse_line json_loads T cg line' = Inr cg'"
    if "json_loads line = Some (JArray ret1)" "6 \<le> length ret1"
      "json_loads line' = Some (JArray (take 6 ret1))" for cg'
    using that parse_line_take6 [of ret1 T cg cg']
    by (simp add: parse_line_def load_json_line_def del: load_json_value.simps)
  from a b c d f show ?thesis by blast
qed

theorem line_arity_errors_witness:
  "load_json_line example_loads line_broken = Inl JSONDecodeError \<and>
   load_json_line example_loads line_two = Inl IndexError \<and>
   parse_line example_loads example_term sample_cg line_four = Inl IndexError \<and>
   parse_line example_loads example_term sample_cg line_numbers = Inl AttributeError \<and>
   parse_line example_loads example_term sample_cg line_seven =
     parse_line example_loads example_term sample_cg line_global \<and>
   parse_line example_loads example_term sample_cg line_global =
     Inr (cg_add sample_cg
       (Triple (URIRef ''http://a'') (URIRef ''http://b'') (URIRef ''http://c'')))"
proof -
  have l0: "example_loads line_broken = None"
    by (simp add: example_defs)
  have l2: "example_loads line_two = Some (JArray [JString ''http://a'', JString ''http://b''])"
    by (simp add: example_defs)
  have l4: "example_loads line_four =
      Some (JArray [JString ''http://a'', JString ''http://b'', JString ''http://c'',
        JString ''globalId''])"
    by (simp add: example_defs)
  have ln: "example_loads line_numbers =
      Some (JArray [JNumber ''1'', JNumber ''2'', JNumber ''3'', JNumber ''4''])"
    by (simp add: example_defs)
  have l6: "example_loads line_global =
      Some (JArray [JString ''http://a'', JString ''http://b'', JString ''http://c'',
        JString ''globalId'', JString [], JString []])"
    by (simp add: example_defs)
  have l7: "example_loads line_seven =
      Some (JArray [JString ''http://a'', JString ''http://b'', JString ''http://c'',
        JString ''globalId'', JString [], JString [], JString ''more''])"
    by (simp add: example_defs)
  have p4: "parse_line example_loads example_term sample_cg line_four = Inl IndexError"
    by (simp add: parse_line_def load_json_line_def l4 parse_hextuple_def required_def
        subject_term_def empty_to_none_def eval_defs)
  have pn: "parse_line example_loads example_term sample_cg line_numbers = Inl AttributeError"
    by (simp add: parse_line_def load_json_line_def ln parse_hextuple_def required_def
        subject_term_def empty_to_none_def getitem_def)
  have p6: "parse_line example_loads example_term sample_cg line_global =
     Inr (cg_add sample_cg
       (Triple (URIRef ''http://a'') (URIRef ''http://b'') (URIRef ''http://c'')))"
    by (simp add: parse_line_def load_json_line_def l6 empty_to_none_def eval_defs)
  have p7: "parse_line example_loads example_term sample_cg line_seven =
     Inr (cg_add sample_cg
       (Triple (URIRef ''http://a'') (URIRef ''http://b'') (URIRef ''http://c'')))"
    by (simp add: parse_line_def load_json_line_def l7 empty_to_none_def eval_defs)
  show ?thesis
    using line_arity_errors [of example_loads line_broken "[]" example_term sample_cg line_broken]
      line_arity_errors [of example_loads line_two "[JString ''http://a'', JString ''http://b'']"
        example_term sample_cg line_two]
      line_arity_errors [of example_loads line_four
        "[JString ''http://a'', JString ''http://b'', JString ''http://c'', JString ''globalId'']"
        example_term sample_cg line_four]
      line_arity_errors [of example_loads line_numbers
        "[JNumber ''1'', JNumber ''2'', JNumber ''3'', JNumber ''4'']"
        example_term sample_cg line_numbers]
      line_arity_errors [of example_loads line_seven
        "[JString ''http://a'', JString ''http://b'', JString ''http://c'', JString ''globalId'',
          JString [], JString [], JString ''more'']"
        example_term sample_cg line_global]
      l0 l2 l4 ln l6 l7 p4 pn p6 p7
    by simp
qed

text \<open>
  The claim as the spec states it asks for a decode error on every array that has not
  exactly six elements. An array of seven elements decodes to seven fields, and the
  statement of its first six is added to the graph.
\<close>

theorem seven_positions_counterexample:
  "example_loads line_seven =
     Some (JArray [JString ''http://a'', JString ''http://b'', JString ''http://c'',
       JString ''globalId'', JString [], JString [], JString ''more'']) \<and>
   load_json_line example_loads line_seven =
     Inr [JString ''http://a'', JString ''http://b'', JString ''http://c'', JString ''globalId'',
       JNull, JNull, JString ''more''] \<and>
   parse_line example_loads example_term sample_cg line_seven =
     Inr (cg_add sample_cg
       (Triple (URIRef ''http://a'') (URIRef ''http://b'') (URIRef ''http://c'')))"
proof -
  have l: "example_loads line_seven =
     Some (JArray [JString ''http://a'', JString ''http://b'', JString ''http://c'',
       JString ''globalId'', JString [], JString [], JString ''more''])"
    by (simp add: example_defs)
  have d: "load_json_line example_loads line_seven =
     Inr [JString ''http://a'', JString ''http://b'', JString ''http://c'', JString ''globalId'',
       JNull, JNull, JString ''more'']"
    by (simp add: load_json_line_def l getitem_def empty_to_none_def)
  have p: "parse_line example_loads example_term sample_cg line_seven =
     Inr (cg_add sample_cg
       (Triple (URIRef ''http://a'') (URIRef ''http://b'') (URIRef ''http://c'')))"
    by (simp add: parse_line_def d eval_defs)
  from l d p show ?thesis by simp
qed

subsection \<open>Validation and terms\<close>

text \<open>
  C6. \<^verbatim>\<open>_parse_hextuple\<close> raises the \<open>ValueError\<close> of line 45 if and only if one of the
  positions 0 (subject), 1 (predicate), 2 (value), 3 (datatype) of the record is null, and
  the error carries the record it was given. A null in position 4 (language) or 5 (graph)
  never fails: a record of six or more positions whose first four are strings is accepted
  when its language is null or a tag that \<^verbatim>\<open>rdflib.term\<close> does not refuse, and its graph is
  null or a string.
\<close>

theorem validation_error_iff:
  "((\<exists>r. parse_hextuple T cg tup = Inl (ValueError (CannotBeNone r))) \<longleftrightarrow>
      (\<exists>i<4. getitem tup i = Inr JNull)) \<and>
   (\<forall>r. parse_hextuple T cg tup = Inl (ValueError (CannotBeNone r)) \<longrightarrow> r = tup) \<and>
   (\<forall>t0 t1 t2 t3 t4 t5 rest.
      tup = JString t0 # JString t1 # JString t2 # JString t3 # t4 # t5 # rest \<and>
      (t4 = JNull \<or> (\<exists>l. t4 = JString l \<and> \<not> rejects_langtag T l)) \<and>
      (t5 = JNull \<or> (\<exists>c. t5 = JString c)) \<longrightarrow>
      (\<exists>cg'. parse_hextuple T cg tup = Inr cg'))"
proof -
  have a: "(\<exists>r. parse_hextuple T cg tup = Inl (ValueError (CannotBeNone r))) \<longleftrightarrow>
      (\<exists>i<4. getitem tup i = Inr JNull)"
    by (simp add: parse_hextuple_validation)
  have b: "r = tup" if "parse_hextuple T cg tup = Inl (ValueError (CannotBeNone r))" for r
    using that by (simp add: parse_hextuple_validation)
  have c: "\<exists>cg'. parse_hextuple T cg tup = Inr cg'"
    if "tup = JString t0 # JString t1 # JString t2 # JString t3 # t4 # t5 # rest"
      "t4 = JNull \<or> (\<exists>l. t4 = JString l \<and> \<not> rejects_langtag T l)"
      "t5 = JNull \<or> (\<exists>c. t5 = JString c)" for t0 t1 t2 t3 t4 t5 rest
    using that by (auto simp: eval_defs)
  from a b c show ?thesis by blast
qed

theorem validation_error_iff_witness:
  "parse_hextuple example_term sample_cg
     [JNull, JString ''p'', JString [], JString ''d'', JNull, JNull] =
     Inl (ValueError (CannotBeNone
       [JNull, JString ''p'', JString [], JString ''d'', JNull, JNull])) \<and>
   getitem [JNull, JString ''p'', JString [], JString ''d'', JNull, JNull] 0 = Inr JNull \<and>
   parse_hextuple example_term sample_cg
     [JString ''http://a'', JString ''p'', JString [], JString ''d'', JNull, JNull] =
     Inr (cg_add sample_cg
       (Triple (URIRef ''http://a'') (URIRef ''p'') (Literal [] None (Some (URIRef ''d'')))))"
proof -
  have a: "parse_hextuple example_term sample_cg
      [JNull, JString ''p'', JString [], JString ''d'', JNull, JNull] =
     Inl (ValueError (CannotBeNone
       [JNull, JString ''p'', JString [], JString ''d'', JNull, JNull]))"
    by (simp add: parse_hextuple_six)
  have b: "parse_hextuple example_term sample_cg
      [JString ''http://a'', JString ''p'', JString [], JString ''d'', JNull, JNull] =
     Inr (cg_add sample_cg
       (Triple (URIRef ''http://a'') (URIRef ''p'') (Literal [] None (Some (URIRef ''d'')))))"
    by (simp add: eval_defs)
  show ?thesis
    using validation_error_iff [of example_term sample_cg
        "[JNull, JString ''p'', JString [], JString ''d'', JNull, JNull]"]
      validation_error_iff [of example_term sample_cg
        "[JString ''http://a'', JString ''p'', JString [], JString ''d'', JNull, JNull]"]
      a b
    by (simp add: getitem_def)
qed

text \<open>
  C2, as amended. For a record that \<^verbatim>\<open>_parse_hextuple\<close> accepts, the subject of the added
  statement is a \<open>BNode\<close> exactly when the subject string starts with the one character
  \<open>_\<close>; for every other subject string it is \<open>URIRef\<close> of the unmodified string. When the
  subject string is \<open>_:\<close> followed by a remainder in which \<open>_:\<close> does not occur, the term
  is \<open>BNode\<close> of the remainder.
\<close>

theorem subject_term_of_record:
  assumes "parse_hextuple T cg tup = Inr cg'"
    and "getitem tup 0 = Inr (JString t0)"
  shows "((\<exists>b. subject (last (added (cg_store cg'))) = BNode b) \<longleftrightarrow> startswith t0 ''_'') \<and>
    (\<not> startswith t0 ''_'' \<longrightarrow> subject (last (added (cg_store cg'))) = URIRef t0) \<and>
    (\<forall>r. t0 = ''_:'' @ r \<and> \<not> contains r ''_:'' \<longrightarrow>
       subject (last (added (cg_store cg'))) = BNode r)"
proof -
  let ?s = "if startswith t0 ''_'' then BNode (replace t0 ''_:'' []) else URIRef t0"
  from assms have s: "subject (last (added (cg_store cg'))) = ?s"
    by (auto simp: parse_hextuple_Inr getitem_def subject_term_def split: if_splits)
  have "?s = BNode r" if "t0 = ''_:'' @ r" "\<not> contains r ''_:''" for r
  proof -
    have "replace t0 ''_:'' [] = replace r ''_:'' []"
      unfolding that(1) by (rule replace_bnode_prefix)
    also have "\<dots> = r"
      using that(2) by (simp add: replace_absent)
    finally have "replace t0 ''_:'' [] = r" .
    then show ?thesis using that by (simp add: startswith_def)
  qed
  then show ?thesis
    unfolding s by auto
qed

theorem subject_term_of_record_witness:
  "parse_hextuple example_term sample_cg
     [JString ''_:b1'', JString ''http://b'', JString ''_:b2'', JString ''localId'', JNull,
      JNull] =
   Inr (cg_add sample_cg (Triple (BNode ''b1'') (URIRef ''http://b'') (BNode ''b2''))) \<and>
   getitem [JString ''_:b1'', JString ''http://b'', JString ''_:b2'', JString ''localId'', JNull,
      JNull] 0 = Inr (JString ''_:b1'') \<and>
   startswith ''_:b1'' ''_'' \<and> \<not> contains ''b1'' ''_:'' \<and>
   subject (last (added (cg_store (cg_add sample_cg
     (Triple (BNode ''b1'') (URIRef ''http://b'') (BNode ''b2'')))))) = BNode ''b1''"
proof -
  let ?tup = "[JString ''_:b1'', JString ''http://b'', JString ''_:b2'', JString ''localId'',
    JNull, JNull]"
  have p: "parse_hextuple example_term sample_cg ?tup =
      Inr (cg_add sample_cg (Triple (BNode ''b1'') (URIRef ''http://b'') (BNode ''b2'')))"
    by (simp add: eval_defs)
  have g: "getitem ?tup 0 = Inr (JString ''_:b1'')"
    by (simp add: getitem_def)
  show ?thesis
    using subject_term_of_record [OF p g] p g by (simp add: startswith_def)
qed

text \<open>
  The claim as the spec states it makes the two characters \<open>_:\<close> the test. The subject
  \<open>_x\<close> does not start with \<open>_:\<close>, and its term is a \<open>BNode\<close>, not \<open>URIRef ''_x''\<close>.
\<close>

theorem subject_prefix_counterexample:
  "\<not> startswith ''_x'' ''_:'' \<and>
   parse_hextuple example_term sample_cg
     [JString ''_x'', JString ''http://b'', JString ''v'', JString ''http://d'', JNull, JNull] =
   Inr (cg_add sample_cg
     (Triple (BNode ''_x'') (URIRef ''http://b'')
        (Literal ''v'' None (Some (URIRef ''http://d'')))))"
  by (simp add: eval_defs)

text \<open>
  C3. With the datatype \<open>localId\<close> the claim makes the object the blank node of the value
  without a leading \<open>_:\<close>. The code calls \<^verbatim>\<open>replace("_:", "")\<close>, which removes \<open>_:\<close>
  wherever it occurs: for the value \<open>_:a_:b\<close>, the blank node \<open>a_:b\<close> as written in a
  Hextuples file, the object is \<open>BNode ''ab''\<close> and not \<open>BNode ''a_:b''\<close>.
\<close>

theorem local_id_removes_every_prefix:
  "parse_hextuple T sample_cg
     [JString ''http://a'', JString ''http://b'', JString ''_:a_:b'', JString ''localId'', JNull,
      JNull] =
   Inr (cg_add sample_cg (Triple (URIRef ''http://a'') (URIRef ''http://b'') (BNode ''ab'')))"
  by (simp add: eval_defs)

text \<open>
  C4, as amended. Take a record whose subject, predicate, value and datatype are strings,
  whose datatype is neither \<open>globalId\<close> nor \<open>localId\<close> and whose graph is null or a string.
  With a null language a statement is added, and its object is the typed literal
  \<open>Literal value None (Some (URIRef datatype))\<close>. With a language \<open>l\<close> that \<^verbatim>\<open>rdflib.term\<close>
  does not refuse a statement is added, and its object is \<open>Literal value (Some l) None\<close>,
  where the datatype string does not occur. With a language that \<^verbatim>\<open>rdflib.term\<close> refuses,
  \<^verbatim>\<open>Literal\<close> raises \<open>ValueError\<close> and nothing is added.
\<close>

theorem literal_object_of_record:
  assumes "tup = JString t0 # JString t1 # JString t2 # JString t3 # t4 # t5 # rest"
    and "t3 \<noteq> ''globalId''" and "t3 \<noteq> ''localId''"
    and "t5 = JNull \<or> (\<exists>c. t5 = JString c)"
  shows "(t4 = JNull \<longrightarrow>
       (\<exists>st. parse_hextuple T cg tup = Inr (cg_add cg st) \<and>
             object st = Literal t2 None (Some (URIRef t3)))) \<and>
    (\<forall>l. t4 = JString l \<and> \<not> rejects_langtag T l \<longrightarrow>
       (\<exists>st. parse_hextuple T cg tup = Inr (cg_add cg st) \<and>
             object st = Literal t2 (Some l) None)) \<and>
    (\<forall>l. t4 = JString l \<and> rejects_langtag T l \<longrightarrow>
       parse_hextuple T cg tup = Inl (ValueError (NotALanguageTag l)))"
  using assms by (auto simp: eval_defs)

theorem literal_object_of_record_witness:
  "parse_hextuple example_term sample_cg
     [JString ''http://a'', JString ''http://b'', JString ''v'',
      JString ''http://www.w3.org/2001/XMLSchema#string'', JNull, JNull] =
   Inr (cg_add sample_cg
     (Triple (URIRef ''http://a'') (URIRef ''http://b'')
        (Literal ''v'' None (Some (URIRef ''http://www.w3.org/2001/XMLSchema#string''))))) \<and>
   parse_hextuple example_term sample_cg
     [JString ''http://a'', JString ''http://b'', JString ''hi'',
      JString ''http://www.w3.org/2001/XMLSchema#string'', JString ''en'', JNull] =
   Inr (cg_add sample_cg
     (Triple (URIRef ''http://a'') (URIRef ''http://b'') (Literal ''hi'' (Some ''en'') None))) \<and>
   \<not> rejects_langtag example_term ''en'' \<and> rejects_langtag example_term ''not a lang'' \<and>
   parse_hextuple example_term sample_cg
     [JString ''http://a'', JString ''http://b'', JString ''hi'', JString ''http://d'',
      JString ''not a lang'', JNull] =
   Inl (ValueError (NotALanguageTag ''not a lang''))"
proof -
  have n: "''http://www.w3.org/2001/XMLSchema#string'' \<noteq> ''globalId''"
    "''http://www.w3.org/2001/XMLSchema#string'' \<noteq> ''localId''"
    "''http://d'' \<noteq> ''globalId''" "''http://d'' \<noteq> ''localId''"
    by simp_all
  have g: "JNull = JNull \<or> (\<exists>c. JNull = JString c)"
    by simp
  have r: "\<not> rejects_langtag example_term ''en''" "rejects_langtag example_term ''not a lang''"
    by (simp_all add: example_term_def)
  note a = literal_object_of_record [of _ "''http://a''" "''http://b''" "''v''"
      "''http://www.w3.org/2001/XMLSchema#string''" JNull JNull "[]" example_term sample_cg,
      OF refl n(1) n(2) g]
  note b = literal_object_of_record [of _ "''http://a''" "''http://b''" "''hi''"
      "''http://www.w3.org/2001/XMLSchema#string''" "JString ''en''" JNull "[]" example_term
      sample_cg, OF refl n(1) n(2) g]
  note c = literal_object_of_record [of _ "''http://a''" "''http://b''" "''hi''"
      "''http://d''" "JString ''not a lang''" JNull "[]" example_term sample_cg,
      OF refl n(3) n(4) g]
  have p1: "parse_hextuple example_term sample_cg
     [JString ''http://a'', JString ''http://b'', JString ''v'',
      JString ''http://www.w3.org/2001/XMLSchema#string'', JNull, JNull] =
   Inr (cg_add sample_cg
     (Triple (URIRef ''http://a'') (URIRef ''http://b'')
        (Literal ''v'' None (Some (URIRef ''http://www.w3.org/2001/XMLSchema#string'')))))"
    by (simp add: eval_defs)
  have p2: "parse_hextuple example_term sample_cg
     [JString ''http://a'', JString ''http://b'', JString ''hi'',
      JString ''http://www.w3.org/2001/XMLSchema#string'', JString ''en'', JNull] =
   Inr (cg_add sample_cg
     (Triple (URIRef ''http://a'') (URIRef ''http://b'') (Literal ''hi'' (Some ''en'') None)))"
    by (simp add: eval_defs r)
  from c r(2) have p3: "parse_hextuple example_term sample_cg
     [JString ''http://a'', JString ''http://b'', JString ''hi'', JString ''http://d'',
      JString ''not a lang'', JNull] =
   Inl (ValueError (NotALanguageTag ''not a lang''))"
    by blast
  from a b p1 p2 p3 r show ?thesis by simp
qed

text \<open>
  The claim as the spec states it gives every validated record with a language a
  language-tagged literal. For the language \<open>not a lang\<close> there is no literal: line 69
  raises, and the record is not added.
\<close>

theorem language_tag_counterexample:
  "rejects_langtag example_term ''not a lang'' \<and>
   parse_hextuple example_term sample_cg
     [JString ''http://a'', JString ''http://b'', JString ''hi'', JString ''http://d'',
      JString ''not a lang'', JNull] =
   Inl (ValueError (NotALanguageTag ''not a lang''))"
  by (simp add: eval_defs example_term_def)

text \<open>
  C7, as amended. Take a record of six or more positions whose first four are not null and
  from which lines 50 to 69 build the subject \<open>s\<close>, the predicate \<open>p\<close> and the object \<open>ob\<close>
  without raising.
  If position 5 (graph) is null, \<^verbatim>\<open>_parse_hextuple\<close> adds the tuple \<open>(s, p, ob)\<close> of three
  terms; if it is the string \<open>c\<close>, it adds the tuple \<open>(s, p, ob, URIRef c)\<close> of four. When
  \<^verbatim>\<open>parse\<close> reads a file of this one line, the tuple is appended to what the store of the
  caller's graph held. The conjunctive graph that receives the tuples has the caller's
  graph as its default context, from the first line to the last.
\<close>

theorem context_routing:
  assumes "tup = t0 # t1 # t2 # t3 # t4 # t5 # rest"
    and "t0 \<noteq> JNull" and "t1 \<noteq> JNull" and "t2 \<noteq> JNull" and "t3 \<noteq> JNull"
    and "subject_term t0 = Inr s"
    and "make_URIRef T t1 = Inr p"
    and "object_term T tup t2 t3 = Inr ob"
  shows "(t5 = JNull \<longrightarrow> parse_hextuple T cg tup = Inr (cg_add cg (Triple s p ob))) \<and>
    (\<forall>c. t5 = JString c \<longrightarrow>
       parse_hextuple T cg tup = Inr (cg_add cg (Quad s p ob (URIRef c)))) \<and>
    (\<forall>json_loads l. (debug \<longrightarrow> context_aware (store g)) \<and>
       load_json_line json_loads l = Inr tup \<and> t5 = JNull \<longrightarrow>
       parse debug json_loads T (WithFile [l]) g =
         ((store g)\<lparr>added := added (store g) @ [Triple s p ob]\<rparr>, None)) \<and>
    (\<forall>json_loads l c. (debug \<longrightarrow> context_aware (store g)) \<and>
       load_json_line json_loads l = Inr tup \<and> t5 = JString c \<longrightarrow>
       parse debug json_loads T (WithFile [l]) g =
         ((store g)\<lparr>added := added (store g) @ [Quad s p ob (URIRef c)]\<rparr>, None)) \<and>
    (\<forall>json_loads ls cgf r.
       parse_lines json_loads T (conjunctive_graph_of g) ls = (cgf, r) \<longrightarrow>
       default_context cgf = graph_identifier g)"
proof -
  have tr: "parse_hextuple T cg' tup = Inr (cg_add cg' (Triple s p ob))" if "t5 = JNull" for cg'
    using assms that by (simp add: parse_hextuple_six)
  have qu: "parse_hextuple T cg' tup = Inr (cg_add cg' (Quad s p ob (URIRef c)))"
    if "t5 = JString c" for c cg'
    using assms that by (simp add: parse_hextuple_six make_URIRef_def)
  have ptr: "parse debug json_loads T (WithFile [l]) g =
      ((store g)\<lparr>added := added (store g) @ [Triple s p ob]\<rparr>, None)"
    if "debug \<longrightarrow> context_aware (store g)" "load_json_line json_loads l = Inr tup" "t5 = JNull"
    for json_loads l
    using parse_one_line [OF that(1,2) tr [OF that(3)]] .
  have pqu: "parse debug json_loads T (WithFile [l]) g =
      ((store g)\<lparr>added := added (store g) @ [Quad s p ob (URIRef c)]\<rparr>, None)"
    if "debug \<longrightarrow> context_aware (store g)" "load_json_line json_loads l = Inr tup"
      "t5 = JString c"
    for json_loads l c
    using parse_one_line [OF that(1,2) qu [OF that(3)]] .
  have dc: "default_context cgf = graph_identifier g"
    if "parse_lines json_loads T (conjunctive_graph_of g) ls = (cgf, r)" for json_loads ls cgf r
    using parse_lines_frame [OF that] by (simp add: conjunctive_graph_of_def)
  from tr qu ptr pqu dc show ?thesis by blast
qed

theorem context_routing_witness:
  "parse True example_loads example_term (WithFile [line_bnode]) sample_graph =
     ((store sample_graph)\<lparr>added := added (store sample_graph) @
        [Quad (BNode ''b1'') (URIRef ''http://b'') (BNode ''b2'') (URIRef ''http://g/1'')]\<rparr>,
      None) \<and>
   parse True example_loads example_term (WithFile [line_typed]) sample_graph =
     ((store sample_graph)\<lparr>added := added (store sample_graph) @
        [Triple (URIRef ''http://a'') (URIRef ''http://b'')
           (Literal ''v'' None (Some (URIRef ''http://www.w3.org/2001/XMLSchema#string'')))]\<rparr>,
      None) \<and>
   parse_hextuple example_term sample_cg
     [JString ''_:b1'', JString ''http://b'', JString ''_:b2'', JString ''localId'', JNull,
      JString ''http://g/1''] =
     Inr (cg_add sample_cg
       (Quad (BNode ''b1'') (URIRef ''http://b'') (BNode ''b2'') (URIRef ''http://g/1''))) \<and>
   parse_hextuple example_term sample_cg
     [JString ''http://a'', JString ''http://b'', JString ''v'',
      JString ''http://www.w3.org/2001/XMLSchema#string'', JNull, JNull] =
     Inr (cg_add sample_cg
       (Triple (URIRef ''http://a'') (URIRef ''http://b'')
          (Literal ''v'' None (Some (URIRef ''http://www.w3.org/2001/XMLSchema#string''))))) \<and>
   default_context sample_cg = graph_identifier sample_graph"
proof -
  let ?q = "[JString ''_:b1'', JString ''http://b'', JString ''_:b2'', JString ''localId'', JNull,
      JString ''http://g/1'']"
  let ?t = "[JString ''http://a'', JString ''http://b'', JString ''v'',
      JString ''http://www.w3.org/2001/XMLSchema#string'', JNull, JNull]"
  have n: "JString x \<noteq> JNull" for x by simp
  have c: "True \<longrightarrow> context_aware (store sample_graph)"
    by (simp add: sample_graph_def)
  have lq: "load_json_line example_loads line_bnode = Inr ?q"
    by (simp add: load_json_line_def example_defs getitem_def empty_to_none_def)
  have lt: "load_json_line example_loads line_typed = Inr ?t"
    by (simp add: load_json_line_def example_defs getitem_def empty_to_none_def)
  have sq: "subject_term (JString ''_:b1'') = Inr (BNode ''b1'')"
    and st: "subject_term (JString ''http://a'') = Inr (URIRef ''http://a'')"
    by (simp_all add: subject_term_def startswith_def)
  have p: "make_URIRef example_term (JString ''http://b'') = Inr (URIRef ''http://b'')"
    by (simp add: make_URIRef_def)
  have oq: "object_term example_term ?q (JString ''_:b2'') (JString ''localId'') =
      Inr (BNode ''b2'')"
    by (simp add: eval_defs)
  have ot: "object_term example_term ?t (JString ''v'')
      (JString ''http://www.w3.org/2001/XMLSchema#string'') =
      Inr (Literal ''v'' None (Some (URIRef ''http://www.w3.org/2001/XMLSchema#string'')))"
    by (simp add: eval_defs)
  note q = context_routing [OF refl n n n n sq p oq, of sample_cg True sample_graph]
  note t = context_routing [OF refl n n n n st p ot, of sample_cg True sample_graph]
  from q c lq have "parse True example_loads example_term (WithFile [line_bnode]) sample_graph =
     ((store sample_graph)\<lparr>added := added (store sample_graph) @
        [Quad (BNode ''b1'') (URIRef ''http://b'') (BNode ''b2'') (URIRef ''http://g/1'')]\<rparr>,
      None)"
    by blast
  moreover from t c lt have
    "parse True example_loads example_term (WithFile [line_typed]) sample_graph =
     ((store sample_graph)\<lparr>added := added (store sample_graph) @
        [Triple (URIRef ''http://a'') (URIRef ''http://b'')
           (Literal ''v'' None (Some (URIRef ''http://www.w3.org/2001/XMLSchema#string'')))]\<rparr>,
      None)"
    by blast
  moreover from q have "parse_hextuple example_term sample_cg ?q =
     Inr (cg_add sample_cg
       (Quad (BNode ''b1'') (URIRef ''http://b'') (BNode ''b2'') (URIRef ''http://g/1'')))"
    by blast
  moreover from t have "parse_hextuple example_term sample_cg ?t =
     Inr (cg_add sample_cg
       (Triple (URIRef ''http://a'') (URIRef ''http://b'')
          (Literal ''v'' None (Some (URIRef ''http://www.w3.org/2001/XMLSchema#string'')))))"
    by blast
  moreover have "default_context sample_cg = graph_identifier sample_graph"
    by (simp add: sample_cg_def conjunctive_graph_of_def)
  ultimately show ?thesis by blast
qed

text \<open>
  The claim as the spec states it has the statement of every validated record inserted.
  The record of \<open>line_refused\<close> is validated and has a graph, and its language is one that
  \<^verbatim>\<open>rdflib.term\<close> refuses: line 69 raises before line 72 is reached, and no quad is
  inserted.
\<close>

theorem refused_language_counterexample:
  "load_json_line example_loads line_refused =
     Inr [JString ''http://a'', JString ''http://b'', JString ''hi'', JString ''http://d'',
       JString ''not a lang'', JString ''http://g/1''] \<and>
   rejects_langtag example_term ''not a lang'' \<and>
   parse_hextuple example_term sample_cg
     [JString ''http://a'', JString ''http://b'', JString ''hi'', JString ''http://d'',
      JString ''not a lang'', JString ''http://g/1''] =
     Inl (ValueError (NotALanguageTag ''not a lang'')) \<and>
   parse True example_loads example_term (WithFile [line_refused]) sample_graph =
     (store sample_graph, Some (ValueError (NotALanguageTag ''not a lang'')))"
proof -
  have l: "load_json_line example_loads line_refused =
     Inr [JString ''http://a'', JString ''http://b'', JString ''hi'', JString ''http://d'',
       JString ''not a lang'', JString ''http://g/1'']"
    by (simp add: load_json_line_def example_defs getitem_def empty_to_none_def)
  have r: "rejects_langtag example_term ''not a lang''"
    by (simp add: example_term_def)
  have p: "parse_hextuple example_term cg
     [JString ''http://a'', JString ''http://b'', JString ''hi'', JString ''http://d'',
      JString ''not a lang'', JString ''http://g/1''] =
     Inl (ValueError (NotALanguageTag ''not a lang''))" for cg
    by (simp add: eval_defs r)
  have "parse True example_loads example_term (WithFile [line_refused]) sample_graph =
     (store sample_graph, Some (ValueError (NotALanguageTag ''not a lang'')))"
    by (simp add: parse_def parse_line_def l p)
      (simp add: sample_graph_def conjunctive_graph_of_def)
  with l r p show ?thesis by simp
qed

subsection \<open>The whole parse\<close>

text \<open>
  C8, as amended. When Python executes \<^verbatim>\<open>assert\<close> statements (\<^verbatim>\<open>__debug__\<close> is true), \<^verbatim>\<open>parse\<close>
  on a graph whose store is not context-aware raises \<open>AssertionError\<close> and leaves the store
  as it was, whatever the source holds and whatever the lines decode to: no line is
  processed and no statement is added.
\<close>

theorem parse_requires_context_aware:
  assumes "debug" and "\<not> context_aware (store g)"
  shows "parse debug json_loads T source g = (store g, Some AssertionError)"
  using assms by (simp add: parse_def)

theorem parse_requires_context_aware_witness:
  "\<not> context_aware (store plain_graph) \<and>
   parse True example_loads example_term (WithFile [line_typed, line_bnode]) plain_graph =
     (store plain_graph, Some AssertionError) \<and>
   added (store plain_graph) = []"
proof -
  have h: "\<not> context_aware (store plain_graph)"
    by (simp add: plain_graph_def)
  show ?thesis
    using parse_requires_context_aware [OF TrueI h, of example_loads example_term
        "WithFile [line_typed, line_bnode]"] h
    by (simp add: plain_graph_def)
qed

text \<open>
  The claim as the spec states it is about every invocation. Under \<^verbatim>\<open>python -O\<close> the
  \<^verbatim>\<open>assert\<close> of line 88 is not executed: both lines of the file are processed, and their
  statements are added to a store that is not context-aware.
\<close>

theorem optimized_assert_counterexample:
  "\<not> context_aware (store plain_graph) \<and>
   parse False example_loads example_term (WithFile [line_typed, line_bnode]) plain_graph =
     (\<lparr>context_aware = False,
       added =
         [Triple (URIRef ''http://a'') (URIRef ''http://b'')
            (Literal ''v'' None (Some (URIRef ''http://www.w3.org/2001/XMLSchema#string''))),
          Quad (BNode ''b1'') (URIRef ''http://b'') (BNode ''b2'') (URIRef ''http://g/1'')]\<rparr>,
      None)"
  by (simp add: parse_def example_typed_line example_bnode_line)
    (simp add: plain_graph_def conjunctive_graph_of_def cg_add_def)

text \<open>
  C9. If the lines before line \<open>bad\<close> are processed without an error and the line \<open>bad\<close>
  raises the error \<open>e\<close> (a decode error, a validation error or any other), then \<^verbatim>\<open>parse\<close>
  ends with \<open>e\<close> and with the store as these earlier lines left it. The lines after
  \<open>bad\<close> have no part in the result: any other lines in their place, and any other
  result of \<^verbatim>\<open>json.loads\<close> on them, give the same store and the same error.
\<close>

theorem parse_fail_fast:
  assumes "context_aware (store g)"
    and "source_lines source = pre @ bad # post"
    and "parse_lines json_loads T (conjunctive_graph_of g) pre = (cg1, None)"
    and "parse_line json_loads T cg1 bad = Inl e"
  shows "parse debug json_loads T source g = (cg_store cg1, Some e) \<and>
    (\<forall>json_loads' source' post'.
       source_lines source' = pre @ bad # post' \<and>
       (\<forall>l \<in> set (pre @ [bad]). json_loads' l = json_loads l) \<longrightarrow>
       parse debug json_loads' T source' g = (cg_store cg1, Some e))"
proof -
  have stop: "parse_lines jl T (conjunctive_graph_of g) (pre @ bad # post') = (cg1, Some e)"
    if "\<forall>l \<in> set (pre @ [bad]). jl l = json_loads l" for jl post'
  proof -
    from that have "parse_lines jl T (conjunctive_graph_of g) pre = (cg1, None)"
      using parse_lines_cong [of pre jl json_loads] assms(3) by simp
    moreover from that have "parse_line jl T cg1 bad = Inl e"
      using assms(4) by (simp add: parse_line_def load_json_line_def)
    ultimately show ?thesis by (rule parse_lines_stop)
  qed
  have "parse debug json_loads T source g = (cg_store cg1, Some e)"
    using stop [of json_loads post] assms(1,2) by (simp add: parse_def)
  moreover have "parse debug jl T source' g = (cg_store cg1, Some e)"
    if "source_lines source' = pre @ bad # post'"
      "\<forall>l \<in> set (pre @ [bad]). jl l = json_loads l" for jl source' post'
    using stop [OF that(2), of post'] that(1) assms(1) by (simp add: parse_def)
  ultimately show ?thesis by blast
qed

theorem parse_fail_fast_witness:
  "context_aware (store sample_graph) \<and>
   parse True example_loads example_term (WithFile [line_typed, line_empty, line_bnode])
     sample_graph =
     (cg_store (cg_add sample_cg
        (Triple (URIRef ''http://a'') (URIRef ''http://b'')
           (Literal ''v'' None (Some (URIRef ''http://www.w3.org/2001/XMLSchema#string''))))),
      Some (ValueError (CannotBeNone
        [JNull, JString ''p'', JString [], JString ''d'', JNull, JNull]))) \<and>
   parse True example_loads example_term (WithFile [line_typed, line_empty]) sample_graph =
     parse True example_loads example_term (WithFile [line_typed, line_empty, line_bnode])
       sample_graph"
proof -
  have c: "context_aware (store sample_graph)"
    by (simp add: sample_graph_def)
  have s: "source_lines (WithFile [line_typed, line_empty, line_bnode]) =
      [line_typed] @ line_empty # [line_bnode]"
    by simp
  have s': "source_lines (WithFile [line_typed, line_empty]) = [line_typed] @ line_empty # []"
    by simp
  note t = parse_fail_fast [OF c s example_first_line example_second_line, of True]
  from t have "parse True example_loads example_term (WithFile [line_typed, line_empty])
      sample_graph =
     (cg_store (cg_add sample_cg
        (Triple (URIRef ''http://a'') (URIRef ''http://b'')
           (Literal ''v'' None (Some (URIRef ''http://www.w3.org/2001/XMLSchema#string''))))),
      Some (ValueError (CannotBeNone
        [JNull, JString ''p'', JString [], JString ''d'', JNull, JNull])))"
    using s' by blast
  with t c show ?thesis by simp
qed

text \<open>
  C10. If the lines before line \<open>bad\<close> are processed without an error and the line \<open>bad\<close>
  raises the error \<open>e\<close>, then the store that \<^verbatim>\<open>parse\<close> leaves behind holds what it held
  before the call followed by one statement for each of the earlier lines: it is the
  store that parsing the earlier lines alone would leave. Nothing is rolled back.
\<close>

theorem parse_keeps_earlier_statements:
  assumes "context_aware (store g)"
    and "source_lines source = pre @ bad # post"
    and "parse_lines json_loads T (conjunctive_graph_of g) pre = (cg1, None)"
    and "parse_line json_loads T cg1 bad = Inl e"
  shows "\<exists>sts. length sts = length pre \<and>
    added (fst (parse debug json_loads T source g)) = added (store g) @ sts \<and>
    snd (parse debug json_loads T source g) = Some e \<and>
    parse debug json_loads T (WithFile pre) g = (fst (parse debug json_loads T source g), None)"
proof -
  from parse_lines_frame [OF assms(3)] obtain sts where
    "added (cg_store cg1) = added (store g) @ sts" "length sts = length pre"
    by (auto simp: conjunctive_graph_of_def)
  moreover have "parse debug json_loads T source g = (cg_store cg1, Some e)"
    using parse_lines_stop [OF assms(3,4), of post] assms(1,2) by (simp add: parse_def)
  moreover have "parse debug json_loads T (WithFile pre) g = (cg_store cg1, None)"
    using assms(1,3) by (simp add: parse_def)
  ultimately show ?thesis by auto
qed

theorem parse_keeps_earlier_statements_witness:
  "added (fst (parse True example_loads example_term
      (WithFile [line_typed, line_empty, line_bnode]) sample_graph)) =
     added (store sample_graph) @
     [Triple (URIRef ''http://a'') (URIRef ''http://b'')
        (Literal ''v'' None (Some (URIRef ''http://www.w3.org/2001/XMLSchema#string'')))] \<and>
   snd (parse True example_loads example_term
      (WithFile [line_typed, line_empty, line_bnode]) sample_graph) =
     Some (ValueError (CannotBeNone
       [JNull, JString ''p'', JString [], JString ''d'', JNull, JNull]))"
proof -
  have c: "context_aware (store sample_graph)"
    by (simp add: sample_graph_def)
  have s: "source_lines (WithFile [line_typed, line_empty, line_bnode]) =
      [line_typed] @ line_empty # [line_bnode]"
    by simp
  from parse_keeps_earlier_statements [OF c s example_first_line example_second_line, of True]
  have "parse True example_loads example_term (WithFile [line_typed]) sample_graph =
      (fst (parse True example_loads example_term
        (WithFile [line_typed, line_empty, line_bnode]) sample_graph), None)"
    and e: "snd (parse True example_loads example_term
        (WithFile [line_typed, line_empty, line_bnode]) sample_graph) =
      Some (ValueError (CannotBeNone
        [JNull, JString ''p'', JString [], JString ''d'', JNull, JNull]))"
    by auto
  moreover have "parse True example_loads example_term (WithFile [line_typed]) sample_graph =
      (cg_store (cg_add sample_cg
        (Triple (URIRef ''http://a'') (URIRef ''http://b'')
           (Literal ''v'' None (Some (URIRef ''http://www.w3.org/2001/XMLSchema#string''))))),
       None)"
    using c example_first_line by (simp add: parse_def)
  ultimately have "fst (parse True example_loads example_term
        (WithFile [line_typed, line_empty, line_bnode]) sample_graph) =
      cg_store (cg_add sample_cg
        (Triple (URIRef ''http://a'') (URIRef ''http://b'')
           (Literal ''v'' None (Some (URIRef ''http://www.w3.org/2001/XMLSchema#string'')))))"
    by simp
  with e show ?thesis
    by (simp add: sample_cg_def conjunctive_graph_of_def)
qed

end
